theory Spec2Isabelle
  imports Main "HOL-Library.Sublist"
begin

section \<open>Persistent store\<close>

text \<open>
  The three JSON files of the browser (\<^verbatim>\<open>history.json\<close>, \<^verbatim>\<open>bookmarks.json\<close>,
  \<^verbatim>\<open>session.json\<close>) are read by \<^verbatim>\<open>load_json\<close> and written by \<^verbatim>\<open>save_json\<close>.
  A file is modelled by what reading it would do: \<open>Missing\<close> makes \<^verbatim>\<open>open\<close> raise,
  \<open>Corrupt\<close> makes \<^verbatim>\<open>json.load\<close> raise, \<open>Stored v\<close> parses to \<open>v\<close>.
  Whether a write goes through is decided by the environment and is a parameter of every
  operation that writes: \<open>OpenFails\<close> is \<^verbatim>\<open>open(path, 'w')\<close> raising (the file keeps
  its content), \<open>DumpFails\<close> is \<^verbatim>\<open>json.dump\<close> raising after the file was truncated.
  A Python call is a value of \<open>py_exn + 'a\<close>: \<open>Inl\<close> is an exception reaching the caller.
\<close>

datatype py_exn = OSError | ValueError

datatype 'a json_file = Missing | Corrupt | Stored 'a

datatype write_outcome = WriteOk | OpenFails | DumpFails

text \<open>The body of the \<^verbatim>\<open>try\<close> block of \<^verbatim>\<open>load_json\<close>: open the file and parse it.\<close>

definition read_json :: "'a json_file \<Rightarrow> py_exn + 'a" where
  "read_json f = (case f of Missing \<Rightarrow> Inl OSError | Corrupt \<Rightarrow> Inl ValueError | Stored v \<Rightarrow> Inr v)"

definition load_json :: "'a json_file \<Rightarrow> 'a \<Rightarrow> py_exn + 'a" where
  "load_json f dflt = (case read_json f of Inr v \<Rightarrow> Inr v | Inl e \<Rightarrow> Inr dflt)"

text \<open>
  The body of the \<^verbatim>\<open>try\<close> block of \<^verbatim>\<open>save_json\<close>: the file afterwards, and whether
  the block raised.
\<close>

definition write_json :: "write_outcome \<Rightarrow> 'a json_file \<Rightarrow> 'a \<Rightarrow> 'a json_file \<times> (py_exn + unit)" where
  "write_json wo f data =
     (case wo of
        WriteOk \<Rightarrow> (Stored data, Inr ())
      | OpenFails \<Rightarrow> (f, Inl OSError)
      | DumpFails \<Rightarrow> (Corrupt, Inl OSError))"

definition save_json :: "write_outcome \<Rightarrow> 'a json_file \<Rightarrow> 'a \<Rightarrow> 'a json_file \<times> (py_exn + unit)" where
  "save_json wo f data =
     (case write_json wo f data of
        (f', Inr u) \<Rightarrow> (f', Inr ())
      | (f', Inl e) \<Rightarrow> (f', Inr ()))"

section \<open>Tabs\<close>

text \<open>
  The rendering engine is opaque. A tab records the commands its page was given, in
  order (\<open>engine\<close>), and the two values the engine reports back: \<open>page_url\<close> is
  \<^verbatim>\<open>self.url().toString()\<close> and \<open>page_title\<close> is \<^verbatim>\<open>self.title()\<close>. Strings are
  sequences of UTF-8 bytes.
\<close>

datatype engine_cmd = SetHtml string | Load string | RunJavaScript string

record browser_tab =
  is_private :: bool
  is_home :: bool
  visible :: bool
  page_url :: string
  page_title :: string
  engine :: "engine_cmd list"

definition nl :: string where
  "nl = [CHR 0x0A]"

definition dq :: string where
  "dq = [CHR 0x22]"

definition create_homepage_html :: string where
  "create_homepage_html = concat
     [nl,
      ''<!DOCTYPE html>'', nl,
      ''<html>'', nl,
      ''<head>'', nl,
      ''    <meta charset='', dq, ''utf-8'', dq, ''>'', nl,
      ''    <title>Welcome</title>'', nl,
      ''    <style>'', nl,
      ''        body { background-color: #1e1e1e; color: #ffffff; font-family: Arial, sans-serif;'', nl,
      ''               display: flex; flex-direction: column; align-items: center; justify-content: center; height: 100vh; margin: 0; }'', nl,
      ''        h1 { font-size: 36px; margin-bottom: 10px; }'', nl,
      ''        p { font-size: 18px; }'', nl,
      ''    </style>'', nl,
      ''</head>'', nl,
      ''<body>'', nl,
      ''    <h1>Zeal Kimones Light Weight Private Web Browser</h1>'', nl,
      ''    <p>Your secure, privacy-first browsing experience, I think if I made it right.......</p>'', nl,
      ''</body>'', nl,
      ''</html>'', nl]"

definition ADBLOCK_JS :: string where
  "ADBLOCK_JS = concat
     [nl,
      ''const selectors = ['', nl,
      ''  '', [CHR 0x27], ''[id*='', dq, ''ad'', dq, '']'', [CHR 0x27], '', '',
            [CHR 0x27], ''[class*='', dq, ''ad'', dq, '']'', [CHR 0x27], '', '',
            [CHR 0x27], ''[class*='', dq, ''ads'', dq, '']'', [CHR 0x27], '', '',
            [CHR 0x27], ''[class*='', dq, ''advert'', dq, '']'', [CHR 0x27], '','', nl,
      ''  '', [CHR 0x27], ''iframe[src*='', dq, ''ads'', dq, '']'', [CHR 0x27], '', '',
            [CHR 0x27], ''iframe[src*='', dq, ''doubleclick'', dq, '']'', [CHR 0x27], '', '',
            [CHR 0x27], ''iframe[src*='', dq, ''adservice'', dq, '']'', [CHR 0x27], '','', nl,
      ''  '', [CHR 0x27], ''div[data-ad]'', [CHR 0x27], '', '',
            [CHR 0x27], ''div[data-ad-client]'', [CHR 0x27], '', '',
            [CHR 0x27], ''div[data-ad-slot]'', [CHR 0x27], nl,
      ''];'', nl,
      ''selectors.forEach(sel => {'', nl,
      ''  document.querySelectorAll(sel).forEach(el => el.remove());'', nl,
      ''});'', nl]"

text \<open>
  The constructor: the page is given the home page, the tab is hidden and flagged home.
  Before the engine has reported anything, \<open>page_url\<close> and \<open>page_title\<close> are empty.
\<close>

definition BrowserTab :: "string \<Rightarrow> bool \<Rightarrow> browser_tab" where
  "BrowserTab homepage_html priv =
     \<lparr>is_private = priv, is_home = True, visible = False,
      page_url = [], page_title = [], engine = [SetHtml homepage_html]\<rparr>"

definition finish_load :: "browser_tab \<Rightarrow> browser_tab" where
  "finish_load t = t\<lparr>is_home := True, visible := True\<rparr>"

definition load_url :: "browser_tab \<Rightarrow> string \<Rightarrow> browser_tab" where
  "load_url t u = t\<lparr>is_home := False, engine := engine t @ [Load u]\<rparr>"

definition inject_adblock_js :: "browser_tab \<Rightarrow> browser_tab" where
  "inject_adblock_js t =
     (if \<not> is_home t then t\<lparr>engine := engine t @ [RunJavaScript ADBLOCK_JS]\<rparr> else t)"

text \<open>
  The \<^verbatim>\<open>loadFinished\<close> signal of a tab. Its two slots were connected in the order
  \<^verbatim>\<open>finish_load\<close>, \<^verbatim>\<open>inject_adblock_js\<close>, and Qt runs the slots of a signal in the order
  of their connection.
\<close>

definition loadFinished :: "browser_tab \<Rightarrow> browser_tab" where
  "loadFinished t = inject_adblock_js (finish_load t)"

text \<open>
  \<^verbatim>\<open>on_url_changed\<close> reads the tab and changes the history list, which every tab shares
  with the window, and the history file. \<open>qurl\<close> is the text of the URL the engine
  reports (\<^verbatim>\<open>qurl.toString()\<close>); the empty \<^verbatim>\<open>QUrl\<close> is the empty text.
\<close>

definition on_url_changed ::
  "write_outcome \<Rightarrow> browser_tab \<Rightarrow> string \<Rightarrow> string list \<times> string list json_file
    \<Rightarrow> py_exn + (string list \<times> string list json_file)" where
  "on_url_changed wo t qurl s =
     (if qurl = [] \<or> is_home t then Inr s
      else
        (let u = qurl in
         if u \<noteq> [] \<and> u \<notin> set (fst s) \<and> \<not> is_private t then
           (let h' = fst s @ [u] in
            case save_json wo (snd s) h' of
              (f', Inr r) \<Rightarrow> Inr (h', f')
            | (f', Inl e) \<Rightarrow> Inl e)
         else Inr s))"

text \<open>The same method in \<^verbatim>\<open>browser.py\<close>, which has no private tabs.\<close>

definition on_url_changed_v1 ::
  "write_outcome \<Rightarrow> browser_tab \<Rightarrow> string \<Rightarrow> string list \<times> string list json_file
    \<Rightarrow> py_exn + (string list \<times> string list json_file)" where
  "on_url_changed_v1 wo t qurl s =
     (if qurl = [] \<or> is_home t then Inr s
      else
        (let u = qurl in
         if u \<noteq> [] \<and> u \<notin> set (fst s) then
           (let h' = fst s @ [u] in
            case save_json wo (snd s) h' of
              (f', Inr r) \<Rightarrow> Inr (h', f')
            | (f', Inl e) \<Rightarrow> Inl e)
         else Inr s))"

text \<open>
  The same method in \<^verbatim>\<open>Browser V3.py\<close>, which keeps no history: it returns early or
  binds a local variable, and changes nothing.
\<close>

definition on_url_changed_v3 ::
  "browser_tab \<Rightarrow> string \<Rightarrow> string list \<times> string list json_file
    \<Rightarrow> py_exn + (string list \<times> string list json_file)" where
  "on_url_changed_v3 t qurl s =
     (if qurl = [] \<or> is_home t then Inr s
      else (let u = qurl in Inr s))"

text \<open>
  A run of \<^verbatim>\<open>urlChanged\<close> callbacks, each from some tab in some state, with some URL
  and some outcome of the write. An exception would end the run.
\<close>

fun url_changes ::
  "(write_outcome \<times> browser_tab \<times> string) list \<Rightarrow> string list \<times> string list json_file
    \<Rightarrow> py_exn + (string list \<times> string list json_file)" where
  "url_changes [] s = Inr s"
| "url_changes ((wo, t, qurl) # evs) s =
     (case on_url_changed wo t qurl s of
        Inl e \<Rightarrow> Inl e
      | Inr s' \<Rightarrow> url_changes evs s')"

section \<open>Address-bar text\<close>

text \<open>
  \<^verbatim>\<open>str.strip()\<close> removes the whitespace code points at both ends of the text. The
  text is UTF-8 here, so a whitespace code point is a sequence of one to three bytes.
  \<open>whitespace\<close> lists the encodings of the code points Python counts as whitespace:
  U+0009 to U+000D, U+001C to U+0020, U+0085, U+00A0, U+1680, U+2000 to U+200A, U+2028,
  U+2029, U+202F, U+205F and U+3000. \<open>space_at_head\<close> is the length of the sequence of
  the table the text starts with, or 0; the trailing end is read on the reversed text
  with the reversed table.
\<close>

definition whitespace :: "string list" where
  "whitespace =
     [[CHR 0x09], [CHR 0x0A], [CHR 0x0B], [CHR 0x0C], [CHR 0x0D], [CHR 0x1C], [CHR 0x1D],
      [CHR 0x1E], [CHR 0x1F], [CHR 0x20], [CHR 0xC2, CHR 0x85], [CHR 0xC2, CHR 0xA0],
      [CHR 0xE1, CHR 0x9A, CHR 0x80], [CHR 0xE2, CHR 0x80, CHR 0x80],
      [CHR 0xE2, CHR 0x80, CHR 0x81], [CHR 0xE2, CHR 0x80, CHR 0x82],
      [CHR 0xE2, CHR 0x80, CHR 0x83], [CHR 0xE2, CHR 0x80, CHR 0x84],
      [CHR 0xE2, CHR 0x80, CHR 0x85], [CHR 0xE2, CHR 0x80, CHR 0x86],
      [CHR 0xE2, CHR 0x80, CHR 0x87], [CHR 0xE2, CHR 0x80, CHR 0x88],
      [CHR 0xE2, CHR 0x80, CHR 0x89], [CHR 0xE2, CHR 0x80, CHR 0x8A],
      [CHR 0xE2, CHR 0x80, CHR 0xA8], [CHR 0xE2, CHR 0x80, CHR 0xA9],
      [CHR 0xE2, CHR 0x80, CHR 0xAF], [CHR 0xE2, CHR 0x81, CHR 0x9F],
      [CHR 0xE3, CHR 0x80, CHR 0x80]]"

definition startswith :: "string \<Rightarrow> string \<Rightarrow> bool" where
  "startswith s p = (take (length p) s = p)"

definition space_at_head :: "string list \<Rightarrow> string \<Rightarrow> nat" where
  "space_at_head table s =
     (case filter (startswith s) table of [] \<Rightarrow> 0 | ws # rest \<Rightarrow> length ws)"

fun drop_spaces :: "string list \<Rightarrow> string \<Rightarrow> string" where
  "drop_spaces table [] = []"
| "drop_spaces table (c # cs) =
     (if space_at_head table (c # cs) = 0 then c # cs
      else drop_spaces table (drop (space_at_head table (c # cs) - 1) cs))"

definition lstrip :: "string \<Rightarrow> string" where
  "lstrip s = drop_spaces whitespace s"

definition rstrip :: "string \<Rightarrow> string" where
  "rstrip s = rev (drop_spaces (map rev whitespace) (rev s))"

definition strip :: "string \<Rightarrow> string" where
  "strip s = rstrip (lstrip s)"

text \<open>
  \<^verbatim>\<open>urllib.parse.quote_plus\<close> of the standard library, on the UTF-8 bytes of the text:
  letters, digits and \<^verbatim>\<open>_.-~\<close> are kept, a space becomes \<^verbatim>\<open>+\<close>, every other byte
  becomes \<^verbatim>\<open>%XX\<close> in upper-case hexadecimal.
\<close>

definition always_safe :: "char \<Rightarrow> bool" where
  "always_safe c =
     (c \<in> set ''ABCDEFGHIJKLMNOPQRSTUVWXYZabcdefghijklmnopqrstuvwxyz0123456789_.-~'')"

definition hex_digit :: "nat \<Rightarrow> char" where
  "hex_digit n = ''0123456789ABCDEF'' ! (n mod 16)"

definition quote_byte :: "string \<Rightarrow> char \<Rightarrow> string" where
  "quote_byte safe c =
     (if always_safe c \<or> c \<in> set safe then [c]
      else [CHR ''%'', hex_digit (of_char c div 16), hex_digit (of_char c mod 16)])"

definition quote :: "string \<Rightarrow> string \<Rightarrow> string" where
  "quote s safe = concat (map (quote_byte safe) s)"

definition quote_plus :: "string \<Rightarrow> string" where
  "quote_plus s =
     (if CHR '' '' \<notin> set s then quote s []
      else map (\<lambda>c. if c = CHR '' '' then CHR ''+'' else c) (quote s '' ''))"

text \<open>
  The URL that \<^verbatim>\<open>navigate\<close> computes from the address-bar text, in \<^verbatim>\<open>browser.py\<close>
  and \<^verbatim>\<open>Beta V2.py\<close> (no search fallback).
\<close>

definition navigate_url :: "string \<Rightarrow> string" where
  "navigate_url txt =
     (let u = strip txt in
      if \<not> (startswith u ''http://'' \<or> startswith u ''https://'') then ''https://'' @ u
      else u)"

text \<open>The same in \<^verbatim>\<open>Browser V3.py\<close>, with the search fallback.\<close>

definition navigate_url_v3 :: "string \<Rightarrow> string" where
  "navigate_url_v3 txt =
     (let t = strip txt in
      if startswith t ''http://'' \<or> startswith t ''https://'' then t
      else if CHR ''.'' \<in> set t \<and> CHR '' '' \<notin> set t then ''https://'' @ t
      else (let query = quote_plus t in ''https://duckduckgo.com/?q='' @ query))"

section \<open>The window\<close>

text \<open>
  A bookmark is the dictionary \<^verbatim>\<open>{'title': ..., 'url': ...}\<close>. A session entry is a
  dictionary read with \<^verbatim>\<open>s.get\<close>, so each key may be absent. The three files hold
  values of these shapes; a file whose JSON has another shape is outside the model.
\<close>

record bookmark =
  bm_title :: string
  bm_url :: string

record session_entry =
  s_url :: "string option"
  s_private :: "bool option"

record disk =
  history_file :: "string list json_file"
  bookmarks_file :: "bookmark list json_file"
  session_file :: "session_entry list json_file"

text \<open>
  One page of the \<^verbatim>\<open>QTabWidget\<close>: the tab, its label, and the index \<^verbatim>\<open>i\<close> bound in the
  slot that \<^verbatim>\<open>add_tab\<close> connects to the tab's \<^verbatim>\<open>titleChanged\<close> signal (\<open>None\<close> until
  the slot is connected).
\<close>

record tab_page =
  widget :: browser_tab
  tab_text :: string
  title_slot :: "int option"

text \<open>
  The window of \<^verbatim>\<open>Beta V2.py\<close>. \<open>current_index\<close> is the tab widget's current index
  (\<open>-1\<close> when it has no page), \<open>notices\<close> the message boxes shown so far (title and text),
  \<open>files\<close> the working directory. Rendering profiles, the theme and the developer tools
  are left out.
\<close>

record simple_browser =
  history :: "string list"
  bookmarks :: "bookmark list"
  homepage_html :: string
  tabs :: "tab_page list"
  current_index :: int
  url_input :: string
  notices :: "(string \<times> string) list"
  files :: disk

definition tabs_count :: "simple_browser \<Rightarrow> int" where
  "tabs_count w = int (length (tabs w))"

definition tabs_widget :: "simple_browser \<Rightarrow> int \<Rightarrow> browser_tab option" where
  "tabs_widget w i =
     (if 0 \<le> i \<and> i < tabs_count w then Some (widget (tabs w ! nat i)) else None)"

definition tabs_currentWidget :: "simple_browser \<Rightarrow> browser_tab option" where
  "tabs_currentWidget w = tabs_widget w (current_index w)"

text \<open>A method call that changes the tab object held at index \<open>i\<close>.\<close>

definition update_widget ::
  "simple_browser \<Rightarrow> int \<Rightarrow> (browser_tab \<Rightarrow> browser_tab) \<Rightarrow> simple_browser" where
  "update_widget w i f =
     (if 0 \<le> i \<and> i < tabs_count w then
        w\<lparr>tabs := (tabs w)[nat i := (tabs w ! nat i)\<lparr>widget := f (widget (tabs w ! nat i))\<rparr>]\<rparr>
      else w)"

definition tabs_setTabText :: "simple_browser \<Rightarrow> int \<Rightarrow> string \<Rightarrow> simple_browser" where
  "tabs_setTabText w i s =
     (if 0 \<le> i \<and> i < tabs_count w then
        w\<lparr>tabs := (tabs w)[nat i := (tabs w ! nat i)\<lparr>tab_text := s\<rparr>]\<rparr>
      else w)"

definition connect_titleChanged :: "simple_browser \<Rightarrow> int \<Rightarrow> int \<Rightarrow> simple_browser" where
  "connect_titleChanged w idx i =
     (if 0 \<le> idx \<and> idx < tabs_count w then
        w\<lparr>tabs := (tabs w)[nat idx := (tabs w ! nat idx)\<lparr>title_slot := Some i\<rparr>]\<rparr>
      else w)"

definition sync_url :: "simple_browser \<Rightarrow> int \<Rightarrow> simple_browser" where
  "sync_url w idx =
     (case tabs_widget w idx of
        Some b \<Rightarrow> (if is_home b then w\<lparr>url_input := []\<rparr> else w\<lparr>url_input := page_url b\<rparr>)
      | None \<Rightarrow> w\<lparr>url_input := []\<rparr>)"

text \<open>
  The tab widget of Qt, with its \<^verbatim>\<open>currentChanged\<close> signal connected to \<^verbatim>\<open>sync_url\<close>.
  \<^verbatim>\<open>setCurrentIndex\<close> acts on a valid index other than the current one. \<^verbatim>\<open>addTab\<close>
  appends, returns the new index, and makes the first page current. \<^verbatim>\<open>removeTab\<close>
  ignores an index out of range; removing the current page selects its right neighbour
  (the last page when there is none), removing a page to the left of the current one moves
  the current index with its page.
\<close>

definition tabs_setCurrentIndex :: "simple_browser \<Rightarrow> int \<Rightarrow> simple_browser" where
  "tabs_setCurrentIndex w i =
     (if 0 \<le> i \<and> i < tabs_count w \<and> i \<noteq> current_index w then
        sync_url (w\<lparr>current_index := i\<rparr>) i
      else w)"

definition tabs_addTab :: "simple_browser \<Rightarrow> browser_tab \<Rightarrow> string \<Rightarrow> simple_browser \<times> int" where
  "tabs_addTab w b label =
     (let idx = tabs_count w;
          w1 = w\<lparr>tabs := tabs w @ [\<lparr>widget = b, tab_text = label, title_slot = None\<rparr>]\<rparr>
      in (if tabs w = [] then sync_url (w1\<lparr>current_index := 0\<rparr>) 0 else w1, idx))"

definition tabs_removeTab :: "simple_browser \<Rightarrow> int \<Rightarrow> simple_browser" where
  "tabs_removeTab w i =
     (if 0 \<le> i \<and> i < tabs_count w then
        (let ts = take (nat i) (tabs w) @ drop (Suc (nat i)) (tabs w);
             w1 = w\<lparr>tabs := ts\<rparr>;
             c = current_index w
         in if i = c then
              (if ts = [] then sync_url (w1\<lparr>current_index := -1\<rparr>) (-1)
               else (let c' = min i (int (length ts) - 1)
                     in sync_url (w1\<lparr>current_index := c'\<rparr>) c'))
            else if i < c then sync_url (w1\<lparr>current_index := c - 1\<rparr>) (c - 1)
            else w1)
      else w)"

text \<open>The suffix of a private tab's label: a space and the lock sign U+1F512.\<close>

definition lock_suffix :: string where
  "lock_suffix = [CHR '' '', CHR 0xF0, CHR 0x9F, CHR 0x94, CHR 0x92]"

definition add_tab :: "simple_browser \<Rightarrow> string option \<Rightarrow> bool \<Rightarrow> simple_browser" where
  "add_tab w url priv =
     (let browser = BrowserTab (homepage_html w) priv;
          (w1, idx) = tabs_addTab w browser (''Home'' @ (if priv then lock_suffix else []));
          w2 = tabs_setCurrentIndex w1 idx;
          w3 = (case url of
                  None \<Rightarrow> w2
                | Some u \<Rightarrow>
                    if u \<noteq> [] then
                      tabs_setTabText (update_widget w2 idx (\<lambda>b. load_url b u)) idx ''Loading...''
                    else w2);
          w4 = connect_titleChanged w3 idx idx
      in sync_url w4 idx)"

definition add_private_tab :: "simple_browser \<Rightarrow> simple_browser" where
  "add_private_tab w = add_tab w None True"

definition close_tab :: "simple_browser \<Rightarrow> int \<Rightarrow> simple_browser" where
  "close_tab w i = (if tabs_count w > 1 then tabs_removeTab w i else w)"

text \<open>
  The tab at position \<open>p\<close> emits \<^verbatim>\<open>titleChanged(t)\<close>: the slot connected by \<^verbatim>\<open>add_tab\<close>
  runs \<^verbatim>\<open>setTabText(i, t or 'New Tab')\<close> with its own \<^verbatim>\<open>i\<close>.
\<close>

definition titleChanged :: "simple_browser \<Rightarrow> int \<Rightarrow> string \<Rightarrow> simple_browser" where
  "titleChanged w p t =
     (if 0 \<le> p \<and> p < tabs_count w then
        (case title_slot (tabs w ! nat p) of
           Some i \<Rightarrow> tabs_setTabText w i (if t \<noteq> [] then t else ''New Tab'')
         | None \<Rightarrow> w)
      else w)"

definition navigate :: "simple_browser \<Rightarrow> simple_browser" where
  "navigate w =
     (let u = navigate_url (url_input w) in
      case tabs_currentWidget w of
        Some b \<Rightarrow> update_widget w (current_index w) (\<lambda>b. load_url b u)
      | None \<Rightarrow> w)"

definition navigate_v3 :: "simple_browser \<Rightarrow> simple_browser" where
  "navigate_v3 w =
     (let u = navigate_url_v3 (url_input w) in
      case tabs_currentWidget w of
        Some b \<Rightarrow> update_widget w (current_index w) (\<lambda>b. load_url b u)
      | None \<Rightarrow> w)"

definition go_home :: "simple_browser \<Rightarrow> simple_browser" where
  "go_home w =
     (case tabs_currentWidget w of
        Some b \<Rightarrow>
          (let w1 = update_widget w (current_index w)
                      (\<lambda>b. b\<lparr>is_home := True, engine := engine b @ [SetHtml (homepage_html w)]\<rparr>);
               w2 = tabs_setTabText w1 (current_index w1) ''Home''
           in w2\<lparr>url_input := []\<rparr>)
      | None \<Rightarrow> w)"

text \<open>\<^verbatim>\<open>QMessageBox.information(self, title, text)\<close>.\<close>

definition information :: "simple_browser \<Rightarrow> string \<Rightarrow> string \<Rightarrow> simple_browser" where
  "information w ttl txt = w\<lparr>notices := notices w @ [(ttl, txt)]\<rparr>"

definition add_bookmark :: "write_outcome \<Rightarrow> simple_browser \<Rightarrow> py_exn + simple_browser" where
  "add_bookmark wo w =
     (case tabs_currentWidget w of
        Some b \<Rightarrow>
          if \<not> is_home b then
            (let u = page_url b; t = page_title b in
             if list_ex (\<lambda>bm. bm_url bm = u) (bookmarks w) then
               Inr (information w ''Bookmark'' ''This page is already bookmarked.'')
             else
               (let bs = bookmarks w @ [\<lparr>bm_title = t, bm_url = u\<rparr>] in
                case save_json wo (bookmarks_file (files w)) bs of
                  (f', Inr r) \<Rightarrow>
                    Inr (information (w\<lparr>bookmarks := bs, files := (files w)\<lparr>bookmarks_file := f'\<rparr>\<rparr>)
                           ''Bookmark'' (''Bookmarked: '' @ t))
                | (f', Inl e) \<Rightarrow> Inl e))
          else Inr w
      | None \<Rightarrow> Inr w)"

text \<open>The entry \<^verbatim>\<open>save_session\<close> writes for one tab.\<close>

definition session_entry_of :: "browser_tab \<Rightarrow> session_entry" where
  "session_entry_of b =
     \<lparr>s_url = Some (if \<not> is_home b then page_url b else []), s_private = Some (is_private b)\<rparr>"

definition save_session :: "write_outcome \<Rightarrow> simple_browser \<Rightarrow> py_exn + simple_browser" where
  "save_session wo w =
     (let entries = concat (map (\<lambda>i. case tabs_widget w (int i) of
                                        Some b \<Rightarrow> [session_entry_of b]
                                      | None \<Rightarrow> [])
                                [0 ..< nat (tabs_count w)]) in
      case save_json wo (session_file (files w)) entries of
        (f', Inr r) \<Rightarrow> Inr (w\<lparr>files := (files w)\<lparr>session_file := f'\<rparr>\<rparr>)
      | (f', Inl e) \<Rightarrow> Inl e)"

text \<open>
  The part of the constructor that restores the session: one \<^verbatim>\<open>add_tab\<close> per entry, in
  order, or a single default tab when the list is empty.
\<close>

definition restore_session :: "simple_browser \<Rightarrow> session_entry list \<Rightarrow> simple_browser" where
  "restore_session w session_tabs =
     (if session_tabs \<noteq> [] then
        fold (\<lambda>s w'. add_tab w' (s_url s) (case s_private s of None \<Rightarrow> False | Some p \<Rightarrow> p))
          session_tabs w
      else add_tab w None False)"

text \<open>The constructor of the window, started in a working directory \<open>d\<close>.\<close>

definition SimpleBrowser :: "disk \<Rightarrow> py_exn + simple_browser" where
  "SimpleBrowser d =
     (case load_json (history_file d) [] of
        Inl e \<Rightarrow> Inl e
      | Inr h \<Rightarrow>
          (case load_json (bookmarks_file d) [] of
             Inl e \<Rightarrow> Inl e
           | Inr bms \<Rightarrow>
               (let w = \<lparr>history = h, bookmarks = bms, homepage_html = create_homepage_html,
                         tabs = [], current_index = -1, url_input = [], notices = [],
                         files = d\<rparr> in
                case load_json (session_file d) [] of
                  Inl e \<Rightarrow> Inl e
                | Inr session_tabs \<Rightarrow> Inr (restore_session w session_tabs))))"

text \<open>A sequence of tab operations on the window.\<close>

datatype tab_op = AddTab "string option" bool | CloseTab int

fun apply_op :: "simple_browser \<Rightarrow> tab_op \<Rightarrow> simple_browser" where
  "apply_op w (AddTab url priv) = add_tab w url priv"
| "apply_op w (CloseTab i) = close_tab w i"

definition apply_ops :: "simple_browser \<Rightarrow> tab_op list \<Rightarrow> simple_browser" where
  "apply_ops w ops = foldl apply_op w ops"

text \<open>
  The tab that the constructor's loop builds for one session entry, by
  \<^verbatim>\<open>add_tab(s.get('url'), private=s.get('private', False))\<close>; \<open>widget_add_tab\<close> below
  shows that \<open>add_tab\<close> appends exactly this tab.
\<close>

definition restored_tab :: "string \<Rightarrow> session_entry \<Rightarrow> browser_tab" where
  "restored_tab hh s =
     (let priv = (case s_private s of None \<Rightarrow> False | Some p \<Rightarrow> p) in
      case s_url s of
        None \<Rightarrow> BrowserTab hh priv
      | Some u \<Rightarrow> if u \<noteq> [] then load_url (BrowserTab hh priv) u else BrowserTab hh priv)"

subsection \<open>Concrete states\<close>

text \<open>
  A working directory without the three files; the window started there
  (\<open>SimpleBrowser_fresh\<close> below); and a window with three tabs: a home tab, a private tab
  and a normal tab that were each told to load a page and whose engines have reported a
  URL and a title, before any \<^verbatim>\<open>loadFinished\<close> signal. The last tab is the current one.
\<close>

definition fresh_disk :: disk where
  "fresh_disk = \<lparr>history_file = Missing, bookmarks_file = Missing, session_file = Missing\<rparr>"

definition home_window :: simple_browser where
  "home_window =
     \<lparr>history = [], bookmarks = [], homepage_html = create_homepage_html,
      tabs = [\<lparr>widget = BrowserTab create_homepage_html False, tab_text = ''Home'',
               title_slot = Some 0\<rparr>],
      current_index = 0, url_input = [], notices = [], files = fresh_disk\<rparr>"

definition example_window :: simple_browser where
  "example_window =
     \<lparr>history = [''https://c.d/''], bookmarks = [], homepage_html = create_homepage_html,
      tabs = [\<lparr>widget = BrowserTab create_homepage_html False, tab_text = ''Home'',
               title_slot = Some 0\<rparr>,
              \<lparr>widget = (load_url (BrowserTab create_homepage_html True) ''https://a.b'')
                          \<lparr>page_url := ''https://a.b/'', page_title := ''A''\<rparr>,
               tab_text = ''Loading...'', title_slot = Some 1\<rparr>,
              \<lparr>widget = (load_url (BrowserTab create_homepage_html False) ''https://c.d'')
                          \<lparr>page_url := ''https://c.d/'', page_title := ''C''\<rparr>,
               tab_text = ''Loading...'', title_slot = Some 2\<rparr>],
      current_index = 2, url_input = ''https://c.d/'', notices = [], files = fresh_disk\<rparr>"

text \<open>
  The same window once every tab has received its \<^verbatim>\<open>loadFinished\<close> signal: each tab
  still shows the page its engine reported.
\<close>

definition finished_window :: simple_browser where
  "finished_window =
     example_window\<lparr>tabs := map (\<lambda>p. p\<lparr>widget := loadFinished (widget p)\<rparr>) (tabs example_window)\<rparr>"

section \<open>Properties\<close>

subsection \<open>The persistent store\<close>

lemma save_json_total: "snd (save_json wo f data) = Inr ()"
  by (simp add: save_json_def write_json_def split: write_outcome.splits)

text \<open>
  C9. For every file state and default, \<^verbatim>\<open>load_json\<close> returns normally: the parsed content
  when reading succeeds, the supplied default when the file is missing or corrupt.
  \<^verbatim>\<open>save_json\<close> returns normally whatever the write does; a successful write leaves the
  data in the file (a later load returns it), a failed one is swallowed.
\<close>

theorem store_never_raises:
  "load_json f dflt = Inr (case read_json f of Inr v \<Rightarrow> v | Inl e \<Rightarrow> dflt)
   \<and> load_json (Stored v) dflt = Inr v
   \<and> load_json Missing dflt = Inr dflt
   \<and> load_json Corrupt dflt = Inr dflt
   \<and> snd (save_json wo f data) = Inr ()
   \<and> save_json WriteOk f data = (Stored data, Inr ())
   \<and> load_json (fst (save_json WriteOk f data)) dflt = Inr data
   \<and> save_json OpenFails f data = (f, Inr ())
   \<and> save_json DumpFails f data = (Corrupt, Inr ())"
  by (simp add: load_json_def read_json_def save_json_def write_json_def
        split: json_file.splits write_outcome.splits)

subsection \<open>The history\<close>

lemma on_url_changed_result:
  "on_url_changed wo t q (h, f) =
     Inr (if q \<noteq> [] \<and> \<not> is_home t \<and> q \<notin> set h \<and> \<not> is_private t
          then (h @ [q], fst (save_json wo f (h @ [q]))) else (h, f))"
  by (simp add: on_url_changed_def Let_def save_json_def write_json_def
        split: write_outcome.splits)

lemma on_url_changed_v1_eq:
  "on_url_changed_v1 wo t q s = on_url_changed wo (t\<lparr>is_private := False\<rparr>) q s"
  by (simp add: on_url_changed_v1_def on_url_changed_def)

lemma on_url_changed_step:
  "\<exists>h1 f1. on_url_changed wo t q (h, f) = Inr (h1, f1) \<and> prefix h h1
      \<and> (distinct h \<longrightarrow> distinct h1)
      \<and> (q \<noteq> [] \<and> \<not> is_home t \<and> \<not> is_private t \<longrightarrow> q \<in> set h1)"
  by (simp add: on_url_changed_result)

lemma url_changes_invariant:
  "\<exists>h' f'. url_changes evs (h, f) = Inr (h', f') \<and> prefix h h' \<and> (distinct h \<longrightarrow> distinct h')"
proof (induction evs arbitrary: h f)
  case Nil
  then show ?case by simp
next
  case (Cons ev evs)
  obtain wo t q where ev: "ev = (wo, t, q)" by (cases ev)
  from on_url_changed_step [of wo t q h f] obtain h1 f1
    where step: "on_url_changed wo t q (h, f) = Inr (h1, f1)"
      and p1: "prefix h h1" and d1: "distinct h \<longrightarrow> distinct h1"
    by blast
  from Cons.IH [of h1 f1] obtain h' f'
    where "url_changes evs (h1, f1) = Inr (h', f')" "prefix h1 h'" "distinct h1 \<longrightarrow> distinct h'"
    by blast
  with step p1 d1 ev show ?case
    by (auto intro: prefix_order.trans)
qed

lemma url_changes_member:
  assumes "(wo, t, u) \<in> set evs" "\<not> is_private t" "\<not> is_home t" "u \<noteq> []"
    and "url_changes evs (h, f) = Inr (h', f')"
  shows "u \<in> set h'"
  using assms
proof (induction evs arbitrary: h f)
  case Nil
  then show ?case by simp
next
  case (Cons ev evs)
  obtain wo1 t1 q1 where ev: "ev = (wo1, t1, q1)" by (cases ev)
  from on_url_changed_step [of wo1 t1 q1 h f] obtain h1 f1
    where step: "on_url_changed wo1 t1 q1 (h, f) = Inr (h1, f1)"
      and mem: "q1 \<noteq> [] \<and> \<not> is_home t1 \<and> \<not> is_private t1 \<longrightarrow> q1 \<in> set h1"
    by blast
  have rest: "url_changes evs (h1, f1) = Inr (h', f')"
    using Cons.prems(5) ev step by simp
  show ?case
  proof (cases "(wo, t, u) = ev")
    case True
    then have "u \<in> set h1"
      using mem ev Cons.prems(2,3,4) by simp
    moreover have "prefix h1 h'"
      using url_changes_invariant [of evs h1 f1] rest by auto
    ultimately show ?thesis by (auto dest: set_mono_prefix)
  next
    case False
    then have "(wo, t, u) \<in> set evs" using Cons.prems(1) by simp
    from Cons.IH [OF this Cons.prems(2,3,4) rest] show ?thesis .
  qed
qed

lemma navigate_url_nonempty: "navigate_url txt \<noteq> [] \<and> navigate_url_v3 txt \<noteq> []"
  by (auto simp: navigate_url_def navigate_url_v3_def Let_def startswith_def)

lemma distinct_count_one: "distinct xs \<Longrightarrow> x \<in> set xs \<Longrightarrow> count_list xs x = 1"
  by (induction xs) auto

text \<open>
  Between \<^verbatim>\<open>load_url\<close> and the \<^verbatim>\<open>loadFinished\<close> signal that follows, the tab's flag
  \<open>is_home\<close> is down. For callbacks that arrive then: start from a history without
  duplicates; if one callback of a run reports a non-empty URL \<open>u\<close> from a tab that is
  not private and whose flag is down, the run raises nothing and afterwards \<open>u\<close> occurs
  exactly once in the history, the history has no duplicates, and the old history is a
  prefix of it.
\<close>

lemma history_unique_before_load_finished:
  assumes "distinct h" and "(wo, t, u) \<in> set evs"
    and "\<not> is_private t" and "\<not> is_home t" and "u \<noteq> []"
  shows "\<exists>h' f'. url_changes evs (h, f) = Inr (h', f') \<and> count_list h' u = 1
           \<and> distinct h' \<and> prefix h h'"
proof -
  from url_changes_invariant [of evs h f] assms(1) obtain h' f'
    where r: "url_changes evs (h, f) = Inr (h', f')" and d: "distinct h'" and p: "prefix h h'"
    by blast
  from url_changes_member [OF assms(2-5) r] have "u \<in> set h'" .
  with d have "count_list h' u = 1" by (rule distinct_count_one)
  with r d p show ?thesis by blast
qed

text \<open>
  C2. What the code does where the claim asks for one history entry. Once a load has
  finished, \<^verbatim>\<open>finish_load\<close> has flagged the tab home, and \<^verbatim>\<open>on_url_changed\<close> returns
  before it looks at the history: for every tab, URL, history and outcome of a write,
  nothing is recorded. So for a normal tab that was told to load \<^verbatim>\<open>https://a.b\<close>, has
  finished loading and shows that page: when the engine then reports
  \<^verbatim>\<open>https://a.b/next\<close> (a link was followed), the history and its file stay as they were,
  and that URL occurs in the history not once but never.
\<close>

theorem history_misses_finished_page:
  "on_url_changed wo (loadFinished t) u s = Inr s
   \<and> \<not> is_private (loadFinished (load_url (BrowserTab create_homepage_html False) ''https://a.b''))
   \<and> on_url_changed WriteOk
        (loadFinished (load_url (BrowserTab create_homepage_html False) ''https://a.b''))
        ''https://a.b/next'' ([''https://a.b/''], Stored [''https://a.b/''])
      = Inr ([''https://a.b/''], Stored [''https://a.b/''])
   \<and> count_list [''https://a.b/''] ''https://a.b/next'' = 0"
  by (simp add: on_url_changed_def loadFinished_def inject_adblock_js_def finish_load_def
        load_url_def BrowserTab_def)

text \<open>
  C4. A \<^verbatim>\<open>urlChanged\<close> callback of a private tab, whatever its state, the URL and the
  outcome a write would have, raises nothing and leaves the history and the history file
  as they were. In \<^verbatim>\<open>Browser V3.py\<close> the callback changes neither for any tab.
\<close>

theorem private_history_unchanged:
  assumes "is_private t"
  shows "on_url_changed wo t qurl (h, f) = Inr (h, f)
         \<and> on_url_changed_v3 t qurl (h, f) = Inr (h, f)"
  using assms by (simp add: on_url_changed_def on_url_changed_v3_def Let_def)

theorem private_history_unchanged_witness:
  "is_private (load_url (BrowserTab create_homepage_html True) ''https://a.b'')
   \<and> \<not> is_home (load_url (BrowserTab create_homepage_html True) ''https://a.b'')
   \<and> on_url_changed WriteOk (load_url (BrowserTab create_homepage_html True) ''https://a.b'')
        ''https://a.b/'' ([''https://c.d''], Stored [''https://c.d''])
      = Inr ([''https://c.d''], Stored [''https://c.d''])"
  using private_history_unchanged [of
      "load_url (BrowserTab create_homepage_html True) ''https://a.b''" WriteOk
      "''https://a.b/''" "[''https://c.d'']" "Stored [''https://c.d'']"]
  by (simp add: load_url_def BrowserTab_def)

subsection \<open>Load finished\<close>

text \<open>
  C5. What the code does where the claim asks for the state Loaded: after \<^verbatim>\<open>load_url\<close>
  the tab is not home, and the \<^verbatim>\<open>loadFinished\<close> signal that follows flags it home again.
\<close>

theorem finish_load_returns_home:
  "\<not> is_home (load_url t u) \<and> is_home (finish_load (load_url t u))
   \<and> is_home (loadFinished (load_url t u))"
  by (simp add: loadFinished_def inject_adblock_js_def finish_load_def load_url_def)

text \<open>
  C6. What the code does where the claim asks for one run of the script: at a
  \<^verbatim>\<open>loadFinished\<close> signal of a tab that is not home, the page is given no command at all,
  because \<^verbatim>\<open>finish_load\<close> has flagged the tab home before \<^verbatim>\<open>inject_adblock_js\<close> looks.
\<close>

theorem adblock_never_runs:
  "\<not> is_home (load_url t u)
   \<and> engine (loadFinished (load_url t u)) = engine (load_url t u)
   \<and> engine (loadFinished t) = engine t"
  by (simp add: loadFinished_def inject_adblock_js_def finish_load_def load_url_def)

subsection \<open>Address-bar resolution\<close>

text \<open>
  C7. The URL computed from the address-bar text: \<^verbatim>\<open>example.com\<close> gets the prefix
  \<^verbatim>\<open>https://\<close> and \<^verbatim>\<open>https://example.com\<close> is kept, in the variants without and with
  search fallback; with search fallback \<^verbatim>\<open>hello world\<close> becomes the search URL whose
  query is \<^verbatim>\<open>hello+world\<close>.
  In the window just started, \<^verbatim>\<open>navigate\<close> tells the tab to load exactly that URL.
\<close>

theorem navigate_url_examples:
  "navigate_url ''example.com'' = ''https://example.com''
   \<and> navigate_url ''https://example.com'' = ''https://example.com''
   \<and> navigate_url_v3 ''example.com'' = ''https://example.com''
   \<and> navigate_url_v3 ''https://example.com'' = ''https://example.com''
   \<and> navigate_url_v3 ''hello world'' = ''https://duckduckgo.com/?q=hello+world''
   \<and> quote_plus ''hello world'' = ''hello+world''
   \<and> map (\<lambda>p. engine (widget p)) (tabs (navigate (home_window\<lparr>url_input := ''example.com''\<rparr>)))
       = [[SetHtml create_homepage_html, Load ''https://example.com'']]
   \<and> map (\<lambda>p. engine (widget p)) (tabs (navigate_v3 (home_window\<lparr>url_input := ''hello world''\<rparr>)))
       = [[SetHtml create_homepage_html, Load ''https://duckduckgo.com/?q=hello+world'']]"
proof -
  have urls: "navigate_url ''example.com'' = ''https://example.com''"
    "navigate_url ''https://example.com'' = ''https://example.com''"
    "navigate_url_v3 ''example.com'' = ''https://example.com''"
    "navigate_url_v3 ''https://example.com'' = ''https://example.com''"
    "navigate_url_v3 ''hello world'' = ''https://duckduckgo.com/?q=hello+world''"
    "quote_plus ''hello world'' = ''hello+world''"
    by (simp_all add: navigate_url_def navigate_url_v3_def strip_def lstrip_def rstrip_def
        space_at_head_def whitespace_def startswith_def
        quote_plus_def quote_def quote_byte_def always_safe_def)
  have cur: "tabs_currentWidget (home_window\<lparr>url_input := x\<rparr>) = Some (BrowserTab create_homepage_html False)" for x
    by (simp add: home_window_def tabs_currentWidget_def tabs_widget_def tabs_count_def)
  have n2: "map (\<lambda>p. engine (widget p)) (tabs (navigate (home_window\<lparr>url_input := ''example.com''\<rparr>)))
       = [[SetHtml create_homepage_html, Load ''https://example.com'']]"
    by (simp add: navigate_def cur urls)
       (simp add: home_window_def update_widget_def tabs_count_def load_url_def BrowserTab_def)
  have n3: "map (\<lambda>p. engine (widget p)) (tabs (navigate_v3 (home_window\<lparr>url_input := ''hello world''\<rparr>)))
       = [[SetHtml create_homepage_html, Load ''https://duckduckgo.com/?q=hello+world'']]"
    by (simp add: navigate_v3_def cur urls)
       (simp add: home_window_def update_widget_def tabs_count_def load_url_def BrowserTab_def)
  from urls n2 n3 show ?thesis by simp
qed

subsection \<open>The tab collection\<close>

lemma tabs_sync_url [simp]: "tabs (sync_url w i) = tabs w"
  by (simp add: sync_url_def split: option.splits)

lemma tabs_setCurrentIndex_tabs [simp]: "tabs (tabs_setCurrentIndex w i) = tabs w"
  by (simp add: tabs_setCurrentIndex_def)

lemma homepage_sync_url [simp]: "homepage_html (sync_url w i) = homepage_html w"
  by (simp add: sync_url_def split: option.splits)

lemma tabs_add_tab:
  "tabs (add_tab w url priv) =
     tabs w @
     [\<lparr>widget = (case url of
                   None \<Rightarrow> BrowserTab (homepage_html w) priv
                 | Some u \<Rightarrow> if u \<noteq> [] then load_url (BrowserTab (homepage_html w) priv) u
                             else BrowserTab (homepage_html w) priv),
       tab_text = (case url of
                     None \<Rightarrow> ''Home'' @ (if priv then lock_suffix else [])
                   | Some u \<Rightarrow> if u \<noteq> [] then ''Loading...''
                               else ''Home'' @ (if priv then lock_suffix else [])),
       title_slot = Some (int (length (tabs w)))\<rparr>]"
  by (simp add: add_tab_def Let_def tabs_addTab_def tabs_count_def update_widget_def
        tabs_setTabText_def connect_titleChanged_def split: option.splits)

lemma homepage_add_tab [simp]: "homepage_html (add_tab w url priv) = homepage_html w"
  by (simp add: add_tab_def Let_def tabs_addTab_def tabs_count_def update_widget_def
        tabs_setTabText_def connect_titleChanged_def tabs_setCurrentIndex_def
        split: option.splits)

lemma add_tab_nonempty: "tabs (add_tab w url priv) \<noteq> []"
  by (simp add: tabs_add_tab)

lemma tabs_removeTab_tabs:
  "tabs (tabs_removeTab w i) =
     (if 0 \<le> i \<and> i < tabs_count w then take (nat i) (tabs w) @ drop (Suc (nat i)) (tabs w)
      else tabs w)"
  by (simp add: tabs_removeTab_def Let_def)

lemma tabs_close_tab:
  "tabs (close_tab w i) =
     (if 1 < length (tabs w) \<and> 0 \<le> i \<and> i < int (length (tabs w))
      then take (nat i) (tabs w) @ drop (Suc (nat i)) (tabs w) else tabs w)"
  by (auto simp add: close_tab_def tabs_removeTab_tabs tabs_count_def)

lemma close_tab_nonempty:
  assumes ne: "tabs w \<noteq> []"
  shows "tabs (close_tab w i) \<noteq> []"
proof (cases "1 < length (tabs w) \<and> 0 \<le> i \<and> i < int (length (tabs w))")
  case True
  then have "length (take (nat i) (tabs w) @ drop (Suc (nat i)) (tabs w)) = length (tabs w) - 1"
    by (simp add: min_def) linarith
  with True have "length (tabs (close_tab w i)) > 0"
    by (simp add: tabs_close_tab del: length_append length_take length_drop)
  then show ?thesis by simp
next
  case False
  with ne show ?thesis by (simp add: tabs_close_tab)
qed

lemma close_tab_single: "length (tabs w) = 1 \<Longrightarrow> close_tab w i = w"
  by (simp add: close_tab_def tabs_count_def)

lemma apply_op_nonempty: "tabs w \<noteq> [] \<Longrightarrow> tabs (apply_op w x) \<noteq> []"
  by (cases x) (simp_all add: add_tab_nonempty close_tab_nonempty)

lemma apply_ops_nonempty: "tabs w \<noteq> [] \<Longrightarrow> tabs (apply_ops w ops) \<noteq> []"
  unfolding apply_ops_def by (induction ops arbitrary: w) (simp_all add: apply_op_nonempty)

lemma widget_add_tab:
  "map widget (tabs (add_tab w (s_url s) (case s_private s of None \<Rightarrow> False | Some p \<Rightarrow> p)))
   = map widget (tabs w) @ [restored_tab (homepage_html w) s]"
  by (simp add: tabs_add_tab restored_tab_def split: option.splits)

lemma fold_add_tab_widgets:
  "map widget (tabs (fold (\<lambda>s w'. add_tab w' (s_url s) (case s_private s of None \<Rightarrow> False | Some p \<Rightarrow> p)) ss w))
     = map widget (tabs w) @ map (restored_tab (homepage_html w)) ss
   \<and> homepage_html (fold (\<lambda>s w'. add_tab w' (s_url s) (case s_private s of None \<Rightarrow> False | Some p \<Rightarrow> p)) ss w)
     = homepage_html w"
proof (induction ss arbitrary: w)
  case Nil
  then show ?case by simp
next
  case (Cons s ss)
  show ?case
    using Cons.IH [of "add_tab w (s_url s) (case s_private s of None \<Rightarrow> False | Some p \<Rightarrow> p)"]
    by (simp add: widget_add_tab)
qed

lemma restore_session_nonempty: "tabs (restore_session w ss) \<noteq> []"
proof (cases "ss = []")
  case True
  then show ?thesis by (simp add: restore_session_def add_tab_nonempty)
next
  case False
  have "map widget (tabs (restore_session w ss)) \<noteq> []"
    using False by (simp add: restore_session_def fold_add_tab_widgets)
  then show ?thesis by auto
qed

lemma SimpleBrowser_total: "\<exists>w0. SimpleBrowser d = Inr w0 \<and> tabs w0 \<noteq> []"
  by (simp add: SimpleBrowser_def load_json_def Let_def restore_session_nonempty
        split: sum.splits)

lemma SimpleBrowser_fresh: "SimpleBrowser fresh_disk = Inr home_window"
  by (simp add: SimpleBrowser_def fresh_disk_def home_window_def load_json_def read_json_def
        restore_session_def add_tab_def tabs_addTab_def tabs_count_def sync_url_def
        tabs_widget_def tabs_setCurrentIndex_def connect_titleChanged_def Let_def BrowserTab_def)

text \<open>
  C1. The window's constructor raises nothing and leaves at least one tab, whatever the
  three files hold, and no sequence of \<^verbatim>\<open>add_tab\<close> and \<^verbatim>\<open>close_tab\<close> calls (with any
  arguments) on a window with a tab empties the tab collection. With more than one tab,
  \<^verbatim>\<open>close_tab(i)\<close> at a valid index removes exactly the tab at \<open>i\<close>; with one tab it
  changes nothing at all.
\<close>

theorem tabs_never_empty:
  "(\<exists>w0. SimpleBrowser d = Inr w0 \<and> tabs w0 \<noteq> [] \<and> tabs (apply_ops w0 ops) \<noteq> [])
   \<and> (tabs w \<noteq> [] \<longrightarrow> tabs (apply_ops w ops) \<noteq> [])
   \<and> (1 < length (tabs w) \<and> 0 \<le> i \<and> i < int (length (tabs w)) \<longrightarrow>
        tabs (close_tab w i) = take (nat i) (tabs w) @ drop (Suc (nat i)) (tabs w))
   \<and> (length (tabs w) = 1 \<longrightarrow> close_tab w i = w)"
  using SimpleBrowser_total [of d]
  by (auto simp: apply_ops_nonempty tabs_close_tab close_tab_single)

theorem tabs_never_empty_witness:
  "SimpleBrowser fresh_disk = Inr home_window
   \<and> length (tabs home_window) = 1
   \<and> close_tab home_window 0 = home_window
   \<and> tabs (apply_ops home_window
        [CloseTab 0, AddTab None True, CloseTab 0, AddTab (Some ''a.b'') False, CloseTab 7, CloseTab 1, CloseTab 0])
       \<noteq> []
   \<and> 1 < length (tabs example_window)
   \<and> tabs (close_tab example_window 1) = [tabs example_window ! 0, tabs example_window ! 2]"
  using tabs_never_empty [of fresh_disk
      "[CloseTab 0, AddTab None True, CloseTab 0, AddTab (Some ''a.b'') False, CloseTab 7, CloseTab 1, CloseTab 0]"
      home_window 0]
    tabs_never_empty [of fresh_disk "[]" example_window 1]
  by (simp add: SimpleBrowser_fresh) (simp add: home_window_def example_window_def)

subsection \<open>The session\<close>

lemma session_entries_map:
  "concat (map (\<lambda>i. case tabs_widget w (int i) of Some b \<Rightarrow> [session_entry_of b] | None \<Rightarrow> [])
             [0 ..< nat (tabs_count w)])
   = map (\<lambda>p. session_entry_of (widget p)) (tabs w)"
proof -
  have "map (\<lambda>i. case tabs_widget w (int i) of Some b \<Rightarrow> [session_entry_of b] | None \<Rightarrow> [])
            [0 ..< length (tabs w)]
        = map (\<lambda>i. [session_entry_of (widget (tabs w ! i))]) [0 ..< length (tabs w)]"
    by (rule map_cong) (simp_all add: tabs_widget_def tabs_count_def)
  also have "\<dots> = map (\<lambda>p. [session_entry_of (widget p)]) (map (\<lambda>i. tabs w ! i) [0 ..< length (tabs w)])"
    by simp
  also have "\<dots> = map (\<lambda>p. [session_entry_of (widget p)]) (tabs w)"
    by (simp only: map_nth)
  finally show ?thesis
    by (simp add: tabs_count_def concat_map_singleton)
qed

lemma save_session_ok:
  "save_session WriteOk w =
     Inr (w\<lparr>files := (files w)\<lparr>session_file :=
            Stored (map (\<lambda>p. session_entry_of (widget p)) (tabs w))\<rparr>\<rparr>)"
  by (simp add: save_session_def session_entries_map save_json_def write_json_def)

lemma restore_session_widgets:
  "ss \<noteq> [] \<Longrightarrow> tabs w = [] \<Longrightarrow>
     map widget (tabs (restore_session w ss)) = map (restored_tab (homepage_html w)) ss"
  by (simp add: restore_session_def fold_add_tab_widgets)

lemma SimpleBrowser_session:
  "session_file d = Stored ss \<Longrightarrow> ss \<noteq> [] \<Longrightarrow>
     \<exists>w. SimpleBrowser d = Inr w
        \<and> map widget (tabs w) = map (restored_tab create_homepage_html) ss"
  by (simp add: SimpleBrowser_def load_json_def read_json_def Let_def restore_session_widgets
        split: sum.splits json_file.splits)

lemma restored_of_entry:
  "is_home b \<or> page_url b \<noteq> [] \<Longrightarrow>
     is_private (restored_tab hh (session_entry_of b)) = is_private b
   \<and> is_home (restored_tab hh (session_entry_of b)) = is_home b
   \<and> engine (restored_tab hh (session_entry_of b)) =
       (if is_home b then [SetHtml hh] else [SetHtml hh, Load (page_url b)])"
  by (auto simp: restored_tab_def session_entry_of_def BrowserTab_def load_url_def)

text \<open>
  The round trip of the flags. Take a window with at least one tab in which every tab
  whose flag \<open>is_home\<close> is down shows a non-empty URL, and let the write of the session
  file succeed. Then \<^verbatim>\<open>save_session\<close> raises nothing and the session file holds one entry
  per tab, in tab order, with the tab's private flag and with its URL, or the empty URL
  for a tab whose flag is up. The constructor started on the files it leaves raises
  nothing and builds as many tabs, in the same order, with the same private flags and the
  same home flags; a tab whose flag was up was given the home page and no URL to load,
  every other tab was given the home page and then its URL to load.
\<close>

lemma session_round_trip_before_load_finished:
  assumes "tabs w \<noteq> []"
    and "list_all (\<lambda>p. is_home (widget p) \<or> page_url (widget p) \<noteq> []) (tabs w)"
  shows "\<exists>w' w''. save_session WriteOk w = Inr w' \<and> SimpleBrowser (files w') = Inr w''
           \<and> session_file (files w') =
               Stored (map (\<lambda>p. \<lparr>s_url = Some (if is_home (widget p) then [] else page_url (widget p)),
                                  s_private = Some (is_private (widget p))\<rparr>) (tabs w))
           \<and> length (tabs w'') = length (tabs w)
           \<and> map (\<lambda>p. is_private (widget p)) (tabs w'') = map (\<lambda>p. is_private (widget p)) (tabs w)
           \<and> map (\<lambda>p. is_home (widget p)) (tabs w'') = map (\<lambda>p. is_home (widget p)) (tabs w)
           \<and> map (\<lambda>p. engine (widget p)) (tabs w'') =
               map (\<lambda>p. if is_home (widget p) then [SetHtml create_homepage_html]
                         else [SetHtml create_homepage_html, Load (page_url (widget p))]) (tabs w)"
proof -
  let ?ss = "map (\<lambda>p. session_entry_of (widget p)) (tabs w)"
  let ?w' = "w\<lparr>files := (files w)\<lparr>session_file := Stored ?ss\<rparr>\<rparr>"
  have s: "save_session WriteOk w = Inr ?w'" by (rule save_session_ok)
  have "session_file (files ?w') = Stored ?ss" by simp
  moreover have "?ss \<noteq> []" using assms(1) by simp
  ultimately obtain w'' where r: "SimpleBrowser (files ?w') = Inr w''"
    and ws: "map widget (tabs w'') = map (restored_tab create_homepage_html) ?ss"
    using SimpleBrowser_session by blast
  have each: "\<And>p. p \<in> set (tabs w) \<Longrightarrow> is_home (widget p) \<or> page_url (widget p) \<noteq> []"
    using assms(2) by (simp add: list_all_iff)
  have len: "length (tabs w'') = length (tabs w)"
    using arg_cong [OF ws, of length] by simp
  have "map (\<lambda>p. is_private (widget p)) (tabs w'') = map is_private (map widget (tabs w''))"
    by simp
  also have "\<dots> = map (\<lambda>p. is_private (widget p)) (tabs w)"
    unfolding ws using each by (simp add: restored_of_entry)
  finally have a: "map (\<lambda>p. is_private (widget p)) (tabs w'') = map (\<lambda>p. is_private (widget p)) (tabs w)" .
  have "map (\<lambda>p. is_home (widget p)) (tabs w'') = map is_home (map widget (tabs w''))"
    by simp
  also have "\<dots> = map (\<lambda>p. is_home (widget p)) (tabs w)"
    unfolding ws using each by (simp add: restored_of_entry)
  finally have b: "map (\<lambda>p. is_home (widget p)) (tabs w'') = map (\<lambda>p. is_home (widget p)) (tabs w)" .
  have "map (\<lambda>p. engine (widget p)) (tabs w'') = map engine (map widget (tabs w''))"
    by simp
  also have "\<dots> = map (\<lambda>p. if is_home (widget p) then [SetHtml create_homepage_html]
                         else [SetHtml create_homepage_html, Load (page_url (widget p))]) (tabs w)"
    unfolding ws using each by (simp add: restored_of_entry)
  finally have c: "map (\<lambda>p. engine (widget p)) (tabs w'') =
      map (\<lambda>p. if is_home (widget p) then [SetHtml create_homepage_html]
                else [SetHtml create_homepage_html, Load (page_url (widget p))]) (tabs w)" .
  have snap: "session_file (files ?w') =
      Stored (map (\<lambda>p. \<lparr>s_url = Some (if is_home (widget p) then [] else page_url (widget p)),
                         s_private = Some (is_private (widget p))\<rparr>) (tabs w))"
    by (simp add: session_entry_of_def)
  from s r snap len a b c show ?thesis by blast
qed


text \<open>
  C3. What the code does where the claim asks for matching URLs. \<^verbatim>\<open>save_session\<close> writes
  the empty URL for every tab that has received \<^verbatim>\<open>loadFinished\<close>, whatever page it
  shows. In the window with three tabs that have all finished loading, two of them
  showing \<^verbatim>\<open>https://a.b/\<close> and \<^verbatim>\<open>https://c.d/\<close>, the snapshot holds three empty URLs, and
  the constructor started on it builds three home tabs that were told to load nothing:
  the private flags match, the loaded URLs are lost.
\<close>

theorem session_loses_finished_pages:
  "s_url (session_entry_of (loadFinished b)) = Some []
   \<and> map (\<lambda>p. page_url (widget p)) (tabs finished_window) = [[], ''https://a.b/'', ''https://c.d/'']
   \<and> map_sum id (\<lambda>w. session_file (files w)) (save_session WriteOk finished_window)
       = Inr (Stored [\<lparr>s_url = Some [], s_private = Some False\<rparr>,
                      \<lparr>s_url = Some [], s_private = Some True\<rparr>,
                      \<lparr>s_url = Some [], s_private = Some False\<rparr>])
   \<and> (case save_session WriteOk finished_window of
         Inl e \<Rightarrow> Inl e
       | Inr w' \<Rightarrow>
           map_sum id
             (\<lambda>w. map (\<lambda>p. (is_private (widget p), is_home (widget p), engine (widget p))) (tabs w))
             (SimpleBrowser (files w')))
       = Inr [(False, True, [SetHtml create_homepage_html]),
              (True, True, [SetHtml create_homepage_html]),
              (False, True, [SetHtml create_homepage_html])]"
proof -
  let ?ss = "[\<lparr>s_url = Some [], s_private = Some False\<rparr>,
              \<lparr>s_url = Some [], s_private = Some True\<rparr>,
              \<lparr>s_url = Some [], s_private = Some False\<rparr>]"
  let ?d = "(files finished_window)\<lparr>session_file := Stored ?ss\<rparr>"
  have g: "s_url (session_entry_of (loadFinished b)) = Some []"
    by (simp add: session_entry_of_def loadFinished_def inject_adblock_js_def finish_load_def)
  have u: "map (\<lambda>p. page_url (widget p)) (tabs finished_window) = [[], ''https://a.b/'', ''https://c.d/'']"
    by (simp add: finished_window_def example_window_def loadFinished_def inject_adblock_js_def
          finish_load_def load_url_def BrowserTab_def)
  have e: "map (\<lambda>p. session_entry_of (widget p)) (tabs finished_window) = ?ss"
    by (simp add: finished_window_def example_window_def session_entry_of_def loadFinished_def
          inject_adblock_js_def finish_load_def load_url_def BrowserTab_def)
  have sv: "save_session WriteOk finished_window = Inr (finished_window\<lparr>files := ?d\<rparr>)"
    unfolding save_session_ok e ..
  have "session_file ?d = Stored ?ss" by simp
  from SimpleBrowser_session [OF this] obtain w
    where r: "SimpleBrowser ?d = Inr w"
      and ws: "map widget (tabs w) = map (restored_tab create_homepage_html) ?ss"
    by auto
  have "map (\<lambda>p. (is_private (widget p), is_home (widget p), engine (widget p))) (tabs w)
          = map (\<lambda>b. (is_private b, is_home b, engine b)) (map widget (tabs w))"
    by simp
  also have "\<dots> = [(False, True, [SetHtml create_homepage_html]),
                     (True, True, [SetHtml create_homepage_html]),
                     (False, True, [SetHtml create_homepage_html])]"
    unfolding ws by (simp add: restored_tab_def BrowserTab_def)
  finally have rs: "map (\<lambda>p. (is_private (widget p), is_home (widget p), engine (widget p))) (tabs w)
          = [(False, True, [SetHtml create_homepage_html]),
             (True, True, [SetHtml create_homepage_html]),
             (False, True, [SetHtml create_homepage_html])]" .
  have a: "map_sum id (\<lambda>w. session_file (files w)) (save_session WriteOk finished_window)
       = Inr (Stored ?ss)"
    unfolding sv by simp
  have b: "(case save_session WriteOk finished_window of
         Inl e \<Rightarrow> Inl e
       | Inr w' \<Rightarrow>
           map_sum id
             (\<lambda>w. map (\<lambda>p. (is_private (widget p), is_home (widget p), engine (widget p))) (tabs w))
             (SimpleBrowser (files w')))
       = Inr [(False, True, [SetHtml create_homepage_html]),
              (True, True, [SetHtml create_homepage_html]),
              (False, True, [SetHtml create_homepage_html])]"
    unfolding sv using r rs by simp
  show ?thesis
    by (rule conjI [OF g conjI [OF u conjI [OF a b]]])
qed

subsection \<open>Bookmarks\<close>

lemma list_ex_bm_url:
  "list_ex (\<lambda>bm. bm_url bm = u) bs = (u \<in> set (map bm_url bs))"
  by (induction bs) auto

lemma add_bookmark_result:
  assumes "tabs_currentWidget w = Some b"
  shows "add_bookmark wo w =
     (if is_home b then Inr w
      else if page_url b \<in> set (map bm_url (bookmarks w)) then
        Inr (information w ''Bookmark'' ''This page is already bookmarked.'')
      else
        Inr (information
              (w\<lparr>bookmarks := bookmarks w @ [\<lparr>bm_title = page_title b, bm_url = page_url b\<rparr>],
                 files := (files w)\<lparr>bookmarks_file :=
                   fst (save_json wo (bookmarks_file (files w))
                          (bookmarks w @ [\<lparr>bm_title = page_title b, bm_url = page_url b\<rparr>]))\<rparr>\<rparr>)
              ''Bookmark'' (''Bookmarked: '' @ page_title b)))"
  using assms
  by (cases wo)
     (simp_all add: add_bookmark_def Let_def list_ex_bm_url save_json_def write_json_def
        del: set_map)

lemma currentWidget_information [simp]:
  "tabs_currentWidget (information w a b) = tabs_currentWidget w"
  by (simp add: information_def tabs_currentWidget_def tabs_widget_def tabs_count_def)

lemma currentWidget_bookmarks [simp]:
  "tabs_currentWidget (w\<lparr>bookmarks := bs, files := fs\<rparr>) = tabs_currentWidget w"
  by (simp add: tabs_currentWidget_def tabs_widget_def tabs_count_def)

lemma add_bookmark_twice:
  assumes cw: "tabs_currentWidget w = Some b" and nh: "\<not> is_home b"
    and d: "distinct (map bm_url (bookmarks w))"
  shows "\<exists>w1 w2. add_bookmark wo w = Inr w1 \<and> add_bookmark wo' w1 = Inr w2
           \<and> count_list (map bm_url (bookmarks w2)) (page_url b) = 1
           \<and> bookmarks w2 = bookmarks w1
           \<and> notices w2 = notices w1 @ [(''Bookmark'', ''This page is already bookmarked.'')]"
proof (cases "page_url b \<in> set (map bm_url (bookmarks w))")
  case True
  let ?w1 = "information w ''Bookmark'' ''This page is already bookmarked.''"
  have 1: "add_bookmark wo w = Inr ?w1"
    using add_bookmark_result [OF cw, of wo] nh True by simp
  have cw1: "tabs_currentWidget ?w1 = Some b" using cw by simp
  have b1: "bookmarks ?w1 = bookmarks w" by (simp add: information_def)
  have 2: "add_bookmark wo' ?w1 = Inr (information ?w1 ''Bookmark'' ''This page is already bookmarked.'')"
    using add_bookmark_result [OF cw1, of wo'] nh True b1 by simp
  have "count_list (map bm_url (bookmarks w)) (page_url b) = 1"
    using d True by (rule distinct_count_one)
  with 1 2 show ?thesis by (simp add: information_def)
next
  case False
  let ?bs = "bookmarks w @ [\<lparr>bm_title = page_title b, bm_url = page_url b\<rparr>]"
  let ?w1 = "information
              (w\<lparr>bookmarks := ?bs,
                 files := (files w)\<lparr>bookmarks_file := fst (save_json wo (bookmarks_file (files w)) ?bs)\<rparr>\<rparr>)
              ''Bookmark'' (''Bookmarked: '' @ page_title b)"
  have 1: "add_bookmark wo w = Inr ?w1"
    using add_bookmark_result [OF cw, of wo] nh False by simp
  have cw1: "tabs_currentWidget ?w1 = Some b" using cw by simp
  have b1: "bookmarks ?w1 = ?bs" by (simp add: information_def)
  have 2: "add_bookmark wo' ?w1 = Inr (information ?w1 ''Bookmark'' ''This page is already bookmarked.'')"
    using add_bookmark_result [OF cw1, of wo'] nh b1 by simp
  have "distinct (map bm_url ?bs)" using d False by simp
  moreover have "page_url b \<in> set (map bm_url ?bs)" by simp
  ultimately have "count_list (map bm_url ?bs) (page_url b) = 1"
    by (rule distinct_count_one)
  with 1 2 b1 show ?thesis by (simp add: information_def)
qed

text \<open>
  On the home page \<^verbatim>\<open>add_bookmark\<close> is silent: in the window just started, whose only
  tab is home, it returns the window as it was, and no notice is shown.
\<close>

lemma add_bookmark_home_silent:
  "SimpleBrowser fresh_disk = Inr home_window
   \<and> map_option is_home (tabs_currentWidget home_window) = Some True
   \<and> add_bookmark WriteOk home_window = Inr home_window
   \<and> notices home_window = []"
  by (simp add: SimpleBrowser_fresh)
     (simp add: home_window_def add_bookmark_def tabs_currentWidget_def tabs_widget_def
        tabs_count_def BrowserTab_def)

text \<open>
  C8. What the code does where the claim asks for a new bookmark. Once the active tab
  has received \<^verbatim>\<open>loadFinished\<close>, \<^verbatim>\<open>finish_load\<close> has flagged it home and
  \<^verbatim>\<open>add_bookmark\<close> returns the window as it was, in every window and for every outcome of
  a write. In the window with three tabs that have all finished loading, the active tab
  shows \<^verbatim>\<open>https://c.d/\<close>, which is not bookmarked; \<^verbatim>\<open>add_bookmark\<close>, called once or
  twice, appends nothing, writes nothing and shows no notice.
\<close>

theorem add_bookmark_ignores_finished_page:
  "add_bookmark wo (update_widget w (current_index w) loadFinished)
     = Inr (update_widget w (current_index w) loadFinished)
   \<and> map_option page_url (tabs_currentWidget finished_window) = Some ''https://c.d/''
   \<and> bookmarks finished_window = []
   \<and> notices finished_window = []
   \<and> add_bookmark WriteOk finished_window = Inr finished_window
   \<and> (case add_bookmark WriteOk finished_window of
         Inl e \<Rightarrow> Inl e
       | Inr w1 \<Rightarrow> add_bookmark WriteOk w1) = Inr finished_window"
proof -
  have g: "add_bookmark wo (update_widget w (current_index w) loadFinished)
     = Inr (update_widget w (current_index w) loadFinished)"
  proof (cases "0 \<le> current_index w \<and> current_index w < tabs_count w")
    case True
    then have n: "nat (current_index w) < length (tabs w)"
      unfolding tabs_count_def by linarith
    have "tabs_currentWidget (update_widget w (current_index w) loadFinished)
            = Some (loadFinished (widget (tabs w ! nat (current_index w))))"
      using True n
      by (simp add: update_widget_def tabs_currentWidget_def tabs_widget_def tabs_count_def)
    from add_bookmark_result [OF this, of wo] show ?thesis
      by (simp add: loadFinished_def inject_adblock_js_def finish_load_def)
  next
    case False
    then have same: "update_widget w (current_index w) loadFinished = w"
      by (auto simp: update_widget_def)
    from False have "tabs_currentWidget w = None"
      by (auto simp: tabs_currentWidget_def tabs_widget_def)
    then show ?thesis
      unfolding same by (simp add: add_bookmark_def)
  qed
  have cw: "tabs_currentWidget finished_window
              = Some (loadFinished (widget (tabs example_window ! 2)))"
    by (simp add: finished_window_def example_window_def tabs_currentWidget_def tabs_widget_def
          tabs_count_def)
  have h: "is_home (loadFinished (widget (tabs example_window ! 2)))"
    by (simp add: loadFinished_def inject_adblock_js_def finish_load_def)
  have p: "map_option page_url (tabs_currentWidget finished_window) = Some ''https://c.d/''"
    unfolding cw
    by (simp add: example_window_def loadFinished_def inject_adblock_js_def finish_load_def
          load_url_def BrowserTab_def)
  have bn: "bookmarks finished_window = []" "notices finished_window = []"
    by (simp_all add: finished_window_def example_window_def)
  have once: "add_bookmark WriteOk finished_window = Inr finished_window"
    using add_bookmark_result [OF cw, of WriteOk] h by simp
  have twice: "(case add_bookmark WriteOk finished_window of
         Inl e \<Rightarrow> Inl e
       | Inr w1 \<Rightarrow> add_bookmark WriteOk w1) = Inr finished_window"
    by (simp add: once)
  show ?thesis
    by (rule conjI [OF g conjI [OF p conjI [OF bn(1) conjI [OF bn(2) conjI [OF once twice]]]]])
qed

subsection \<open>Tab labels\<close>

lemma nth_remove:
  "j < i \<Longrightarrow> i < length xs \<Longrightarrow> (take j xs @ drop (Suc j) xs) ! (i - 1) = xs ! i"
  by (cases i) (auto simp: nth_append min_def)

lemma map_update_same: "(map f xs)[i := f (xs ! i)] = map f xs"
  by (metis list_update_id map_update)

lemma tabs_titleChanged:
  "p < length (tabs w) \<Longrightarrow> title_slot (tabs w ! p) = Some (int i) \<Longrightarrow>
     map tab_text (tabs (titleChanged w (int p) t)) =
       (map tab_text (tabs w))[i := (if t \<noteq> [] then t else ''New Tab'')]
   \<and> map widget (tabs (titleChanged w (int p) t)) = map widget (tabs w)
   \<and> map title_slot (tabs (titleChanged w (int p) t)) = map title_slot (tabs w)"
  by (simp add: titleChanged_def tabs_count_def tabs_setTabText_def map_update
        map_update_same list_update_beyond)

text \<open>
  C10. The slot that \<^verbatim>\<open>add_tab\<close> connects to the new tab's \<^verbatim>\<open>titleChanged\<close> signal holds
  the position at which the tab was appended. Let a tab sit at position \<open>i\<close> with that
  index in its slot, and let \<^verbatim>\<open>close_tab(j)\<close> run for some \<open>j < i\<close>. The tab is then at
  position \<open>i - 1\<close>. When it reports a title, the labels change at position \<open>i\<close> and
  nowhere else (nowhere at all when no tab is at position \<open>i\<close> any more): the tab's own
  label stays what it was.
\<close>

theorem title_slot_keeps_creation_index:
  assumes "i < length (tabs w)" and "title_slot (tabs w ! i) = Some (int i)" and "j < i"
  shows "title_slot (last (tabs (add_tab w url priv))) = Some (int (length (tabs w)))
       \<and> tabs (close_tab w (int j)) ! (i - 1) = tabs w ! i
       \<and> map tab_text (tabs (titleChanged (close_tab w (int j)) (int (i - 1)) t)) =
           (map tab_text (tabs (close_tab w (int j))))[i := (if t \<noteq> [] then t else ''New Tab'')]
       \<and> tab_text (tabs (titleChanged (close_tab w (int j)) (int (i - 1)) t) ! (i - 1)) =
           tab_text (tabs w ! i)"
proof -
  let ?w' = "close_tab w (int j)"
  have tw: "tabs ?w' = take j (tabs w) @ drop (Suc j) (tabs w)"
    using assms(1,3) by (simp add: tabs_close_tab)
  have moved: "tabs ?w' ! (i - 1) = tabs w ! i"
    using nth_remove [OF assms(3,1)] by (simp add: tw)
  have len: "length (tabs ?w') = length (tabs w) - 1"
    using assms(1,3) by (simp add: tw min_def)
  have p: "i - 1 < length (tabs ?w')" using assms(1,3) len by simp
  have slot: "title_slot (tabs ?w' ! (i - 1)) = Some (int i)"
    using moved assms(2) by simp
  from tabs_titleChanged [OF p slot, of t]
  have upd: "map tab_text (tabs (titleChanged ?w' (int (i - 1)) t)) =
       (map tab_text (tabs ?w'))[i := (if t \<noteq> [] then t else ''New Tab'')]"
    by simp
  have l2: "length (tabs (titleChanged ?w' (int (i - 1)) t)) = length (tabs ?w')"
    using arg_cong [OF upd, of length] by simp
  have "tab_text (tabs (titleChanged ?w' (int (i - 1)) t) ! (i - 1))
          = map tab_text (tabs (titleChanged ?w' (int (i - 1)) t)) ! (i - 1)"
    using p l2 by simp
  also have "\<dots> = (map tab_text (tabs ?w')) ! (i - 1)"
    unfolding upd using assms(3) by simp
  also have "\<dots> = tab_text (tabs w ! i)"
    using p moved by simp
  finally have own: "tab_text (tabs (titleChanged ?w' (int (i - 1)) t) ! (i - 1)) = tab_text (tabs w ! i)" .
  have cap: "title_slot (last (tabs (add_tab w url priv))) = Some (int (length (tabs w)))"
    by (simp add: tabs_add_tab)
  from cap moved upd own show ?thesis by blast
qed

theorem title_slot_keeps_creation_index_witness:
  "(1::nat) < length (tabs example_window)
   \<and> title_slot (tabs example_window ! 1) = Some 1
   \<and> (0::nat) < 1
   \<and> map tab_text (tabs example_window) = [''Home'', ''Loading...'', ''Loading...'']
   \<and> title_slot (last (tabs (add_tab example_window None False))) = Some 3
   \<and> tabs (close_tab example_window 0) ! 0 = tabs example_window ! 1
   \<and> map tab_text (tabs (close_tab example_window 0)) = [''Loading...'', ''Loading...'']
   \<and> map tab_text (tabs (titleChanged (close_tab example_window 0) 0 ''A page'')) =
        [''Loading...'', ''A page'']"
proof -
  have a: "(1::nat) < length (tabs example_window)"
    and b: "title_slot (tabs example_window ! 1) = Some (int 1)"
    and c: "(0::nat) < 1"
    by (simp_all add: example_window_def)
  have labels: "map tab_text (tabs example_window) = [''Home'', ''Loading...'', ''Loading...'']"
    by (simp add: example_window_def)
  have closed: "map tab_text (tabs (close_tab example_window 0)) = [''Loading...'', ''Loading...'']"
    by (simp add: tabs_close_tab) (simp add: example_window_def)
  have n: "length (tabs example_window) = 3"
    by (simp add: example_window_def)
  note inst = title_slot_keeps_creation_index [OF a b c, of None False "''A page''"]
  have s: "title_slot (last (tabs (add_tab example_window None False))) = Some 3"
    using conjunct1 [OF inst] n by simp
  have m: "tabs (close_tab example_window 0) ! 0 = tabs example_window ! 1"
    using conjunct1 [OF conjunct2 [OF inst]] by simp
  have u: "map tab_text (tabs (titleChanged (close_tab example_window 0) 0 ''A page'')) =
        [''Loading...'', ''A page'']"
    using conjunct1 [OF conjunct2 [OF conjunct2 [OF inst]]] closed by simp
  from b have b': "title_slot (tabs example_window ! 1) = Some 1" by simp
  show ?thesis
    by (rule conjI [OF a conjI [OF b' conjI [OF c conjI [OF labels conjI [OF s
          conjI [OF m conjI [OF closed u]]]]]]])
qed

end
